theory Spec2Isabelle
  imports Complex_Main
begin

section \<open>Values of the pitch generator\<close>

text \<open>
  The program \<^verbatim>\<open>generate_pitch.py\<close> reads a table of comparable companies and turns it
  into slides. A table cell is a Python integer, a float, a string or a boolean.

  A float is either a finite value, one of the two infinities, or NaN. A finite value is
  represented by the rational number it denotes: arithmetic on finite values is exact
  here, so the rounding and the overflow of IEEE doubles are outside this model, and
  every integer has its own float.
\<close>

datatype pyfloat = Fin rat | PInf | NInf | NaN

datatype cell = IntV int | FloatV pyfloat | StrV string | BoolV bool

datatype error =
    KeyError "string list"
  | ValueError
  | TypeError
  | FileNotFoundError

text \<open>
  Python's \<^verbatim>\<open>float(s)\<close> on a string is part of the language runtime, not of the program.
  It is a parameter \<open>strtod\<close> of the model: \<open>None\<close> where Python raises ValueError.
\<close>

type_synonym strtod = "string \<Rightarrow> pyfloat option"

fun py_float :: "strtod \<Rightarrow> cell \<Rightarrow> error + pyfloat" where
  "py_float strtod (IntV i) = Inr (Fin (of_int i))"
| "py_float strtod (FloatV f) = Inr f"
| "py_float strtod (BoolV b) = Inr (Fin (if b then 1 else 0))"
| "py_float strtod (StrV s) = (case strtod s of None \<Rightarrow> Inl ValueError | Some f \<Rightarrow> Inr f)"

text \<open>Division of a float by a positive finite constant, as in \<^verbatim>\<open>x / 1000.0\<close>.\<close>

fun fdiv_pos :: "pyfloat \<Rightarrow> rat \<Rightarrow> pyfloat" where
  "fdiv_pos (Fin r) d = Fin (r / d)"
| "fdiv_pos PInf d = PInf"
| "fdiv_pos NInf d = NInf"
| "fdiv_pos NaN d = NaN"

subsection \<open>The unit scaler\<close>

text \<open>
  \<^verbatim>\<open>
  def scale_to_bn(x_m):
      try:
          return float(x_m)/1000.0
      except Exception:
          return x_m
  \<close>
\<close>

definition scale_to_bn :: "strtod \<Rightarrow> cell \<Rightarrow> cell" where
  "scale_to_bn strtod x_m =
     (case py_float strtod x_m of
        Inr f \<Rightarrow> FloatV (fdiv_pos f 1000)
      | Inl e \<Rightarrow> x_m)"

subsection \<open>Text of numbers\<close>

definition digit_char :: "nat \<Rightarrow> char" where
  "digit_char d = char_of (48 + d)"

fun nat_digits :: "nat \<Rightarrow> string" where
  "nat_digits n = (if n < 10 then [digit_char n] else nat_digits (n div 10) @ [digit_char (n mod 10)])"

declare nat_digits.simps [simp del]

text \<open>\<^verbatim>\<open>str(i)\<close> of an integer.\<close>

definition str_int :: "int \<Rightarrow> string" where
  "str_int i = (if i < 0 then ''-'' @ nat_digits (nat (- i)) else nat_digits (nat i))"

text \<open>
  Rounding a non-negative rational to the nearest integer, ties to the even one: the
  rounding of \<^verbatim>\<open>format(x, ".1f")\<close> on the exact value of \<open>x\<close>.
\<close>

definition round_half_even :: "rat \<Rightarrow> nat" where
  "round_half_even t =
     (let n = nat \<lfloor>t\<rfloor>; r = t - of_int \<lfloor>t\<rfloor>
      in if r < 1 / 2 then n
         else if 1 / 2 < r then n + 1
         else if even n then n else n + 1)"

text \<open>\<^verbatim>\<open>f"{val:.1f}"\<close>: one decimal; the sign is kept when a negative value rounds to zero.\<close>

fun format_1f :: "pyfloat \<Rightarrow> string" where
  "format_1f NaN = ''nan''"
| "format_1f PInf = ''inf''"
| "format_1f NInf = ''-inf''"
| "format_1f (Fin r) =
     (let n = round_half_even (\<bar>r\<bar> * 10)
      in (if r < 0 then ''-'' else '''') @ nat_digits (n div 10) @ ''.'' @ [digit_char (n mod 10)])"

subsection \<open>Formatting a table cell\<close>

text \<open>Python's \<^verbatim>\<open>needle in s\<close> on strings: \<open>needle\<close> occurs in \<open>s\<close> as a contiguous run.\<close>

fun starts_with :: "string \<Rightarrow> string \<Rightarrow> bool" where
  "starts_with s [] = True"
| "starts_with [] (p # ps) = False"
| "starts_with (c # cs) (p # ps) = (c = p \<and> starts_with cs ps)"

fun str_contains :: "string \<Rightarrow> string \<Rightarrow> bool" where
  "str_contains needle [] = (needle = [])"
| "str_contains needle (c # cs) = (starts_with (c # cs) needle \<or> str_contains needle cs)"

text \<open>
  The body of the inner loop of \<^verbatim>\<open>add_table\<close>, for the cell \<open>val\<close> of the column named
  \<open>col\<close>:
  \<^verbatim>\<open>
  if isinstance(val, float):
      if ("Margin" in df.columns[j]) or ("Growth" in df.columns[j]):
          cell.text = f"{val:.1f}%"
      elif ("EV/EBITDA" in df.columns[j]) or ("EV_EBITDA" in df.columns[j])
           or ("P/E" in df.columns[j]) or (df.columns[j]=="PE"):
          cell.text = f"{val:.1f}x"
      else:
          cell.text = f"{val:.1f}"
  else:
      cell.text = str(val)
  \<close>
\<close>

fun cell_text :: "string \<Rightarrow> cell \<Rightarrow> string" where
  "cell_text col (FloatV val) =
     (if str_contains ''Margin'' col \<or> str_contains ''Growth'' col
        then format_1f val @ ''%''
      else if str_contains ''EV/EBITDA'' col \<or> str_contains ''EV_EBITDA'' col
              \<or> str_contains ''P/E'' col \<or> col = ''PE''
        then format_1f val @ ''x''
      else format_1f val)"
| "cell_text col (IntV i) = str_int i"
| "cell_text col (StrV s) = s"
| "cell_text col (BoolV b) = (if b then ''True'' else ''False'')"

text \<open>
  The format categories of the specification and its name-matching rule, written from the
  specification's words: percentage first, then multiple, then the default.
\<close>

datatype category = Percentage | Multiple | PlainDecimal

definition spec_category :: "string \<Rightarrow> category" where
  "spec_category name =
     (if str_contains ''Margin'' name \<or> str_contains ''Growth'' name then Percentage
      else if str_contains ''EV/EBITDA'' name \<or> str_contains ''EV_EBITDA'' name
              \<or> str_contains ''P/E'' name \<or> name = ''PE'' then Multiple
      else PlainDecimal)"

fun spec_render :: "category \<Rightarrow> pyfloat \<Rightarrow> string" where
  "spec_render Percentage v = format_1f v @ ''%''"
| "spec_render Multiple v = format_1f v @ ''x''"
| "spec_render PlainDecimal v = format_1f v"

fun is_float :: "cell \<Rightarrow> bool" where
  "is_float (FloatV v) = True"
| "is_float c = False"

section \<open>Data frames\<close>

text \<open>
  A data frame has a number of rows and an ordered list of named columns, each holding
  one cell per row.
\<close>

record dataframe =
  nrows :: nat
  cols :: "(string \<times> cell list) list"

definition columns :: "dataframe \<Rightarrow> string list" where
  "columns df = map fst (cols df)"

definition wf_df :: "dataframe \<Rightarrow> bool" where
  "wf_df df = (distinct (columns df) \<and> list_all (\<lambda>p. length (snd p) = nrows df) (cols df))"

text \<open>\<^verbatim>\<open>df[c]\<close>: KeyError when the column is absent.\<close>

definition getitem :: "dataframe \<Rightarrow> string \<Rightarrow> error + cell list" where
  "getitem df c = (case map_of (cols df) c of None \<Rightarrow> Inl (KeyError [c]) | Some vs \<Rightarrow> Inr vs)"

text \<open>The cells of a column, for statements about a frame that has the column.\<close>

definition column_values :: "dataframe \<Rightarrow> string \<Rightarrow> cell list" where
  "column_values df c = (case map_of (cols df) c of None \<Rightarrow> [] | Some vs \<Rightarrow> vs)"

text \<open>\<^verbatim>\<open>df[c] = vs\<close>: replaces the column in place, or appends it as the last one.\<close>

fun update_col :: "string \<Rightarrow> cell list \<Rightarrow> (string \<times> cell list) list \<Rightarrow> (string \<times> cell list) list" where
  "update_col c vs [] = [(c, vs)]"
| "update_col c vs (p # ps) = (if fst p = c then (c, vs) # ps else p # update_col c vs ps)"

definition setitem :: "dataframe \<Rightarrow> string \<Rightarrow> cell list \<Rightarrow> dataframe" where
  "setitem df c vs = df\<lparr>cols := update_col c vs (cols df)\<rparr>"

text \<open>\<^verbatim>\<open>df[names]\<close>: the named columns in the order asked; KeyError lists the absent ones.\<close>

definition select :: "dataframe \<Rightarrow> string list \<Rightarrow> error + dataframe" where
  "select df names =
     (let missing = filter (\<lambda>c. c \<notin> set (columns df)) names
      in if missing \<noteq> [] then Inl (KeyError missing)
         else Inr (df\<lparr>cols := map (\<lambda>c. (c, the (map_of (cols df) c))) names\<rparr>))"

text \<open>\<^verbatim>\<open>df.rename(columns=m)\<close>.\<close>

definition rename :: "(string \<times> string) list \<Rightarrow> dataframe \<Rightarrow> dataframe" where
  "rename m df =
     df\<lparr>cols := map (\<lambda>p. (case map_of m (fst p) of None \<Rightarrow> fst p | Some c' \<Rightarrow> c', snd p)) (cols df)\<rparr>"

section \<open>Slides\<close>

datatype slide =
    TitleSlide string string
  | BulletsSlide string "string list"
  | TableSlide string "string list list"
  | PictureSlide string string "string option"

text \<open>
  \<^verbatim>\<open>add_table\<close> makes a table of \<^verbatim>\<open>df.shape[0] + 1\<close> rows: the header row holds the column
  names, row \<open>i + 1\<close> holds the text of the cells \<^verbatim>\<open>df.iat[i, j]\<close>.
\<close>

definition table_header :: "dataframe \<Rightarrow> string list" where
  "table_header df = map fst (cols df)"

definition table_row :: "dataframe \<Rightarrow> nat \<Rightarrow> string list" where
  "table_row df i = map (\<lambda>p. cell_text (fst p) (snd p ! i)) (cols df)"

definition table_grid :: "dataframe \<Rightarrow> string list list" where
  "table_grid df = table_header df # map (table_row df) [0..<nrows df]"

definition add_table :: "slide list \<Rightarrow> string \<Rightarrow> dataframe \<Rightarrow> slide list" where
  "add_table prs title df = prs @ [TableSlide title (table_grid df)]"

definition add_title_slide :: "slide list \<Rightarrow> string \<Rightarrow> string \<Rightarrow> slide list" where
  "add_title_slide prs title subtitle = prs @ [TitleSlide title subtitle]"

definition add_bullets_slide :: "slide list \<Rightarrow> string \<Rightarrow> string list \<Rightarrow> slide list" where
  "add_bullets_slide prs title bullets = prs @ [BulletsSlide title bullets]"

text \<open>\<^verbatim>\<open>if caption:\<close> an absent or empty caption adds no text box.\<close>

definition add_picture :: "slide list \<Rightarrow> string \<Rightarrow> string \<Rightarrow> string option \<Rightarrow> slide list" where
  "add_picture prs title img_path caption =
     prs @ [PictureSlide title img_path (case caption of None \<Rightarrow> None | Some c \<Rightarrow> if c = [] then None else Some c)]"

section \<open>The statistical summary\<close>

subsection \<open>Dropping missing and infinite values\<close>

text \<open>Applying a conversion to every cell of a column; the first failure is raised.\<close>

fun map_err :: "('a \<Rightarrow> error + 'b) \<Rightarrow> 'a list \<Rightarrow> error + 'b list" where
  "map_err f [] = Inr []"
| "map_err f (c # cs) =
     (case f c of
        Inl e \<Rightarrow> Inl e
      | Inr v \<Rightarrow> (case map_err f cs of Inl e \<Rightarrow> Inl e | Inr vs \<Rightarrow> Inr (v # vs)))"

text \<open>\<^verbatim>\<open>s.astype(float)\<close>: every cell becomes a float; a string that is no number raises.\<close>

definition astype_float :: "strtod \<Rightarrow> cell list \<Rightarrow> error + pyfloat list" where
  "astype_float strtod cs = map_err (py_float strtod) cs"

text \<open>\<^verbatim>\<open>.replace([np.inf, -np.inf], np.nan)\<close> and \<^verbatim>\<open>.dropna()\<close>.\<close>

fun replace_inf :: "pyfloat \<Rightarrow> pyfloat" where
  "replace_inf PInf = NaN"
| "replace_inf NInf = NaN"
| "replace_inf v = v"

definition dropna :: "pyfloat list \<Rightarrow> pyfloat list" where
  "dropna xs = filter (\<lambda>v. v \<noteq> NaN) xs"

text \<open>The finite values of a series, in their order.\<close>

fun fin_values :: "pyfloat list \<Rightarrow> rat list" where
  "fin_values [] = []"
| "fin_values (Fin r # xs) = r # fin_values xs"
| "fin_values (v # xs) = fin_values xs"

text \<open>
  The series handed to numpy: after the two steps above only finite values are left
  (lemma \<open>effective_series_values\<close> below), so it is kept as a list of rationals.
\<close>

definition effective_series :: "pyfloat list \<Rightarrow> rat list" where
  "effective_series xs = fin_values (dropna (map replace_inf xs))"

subsection \<open>Median and percentiles of finite values\<close>

text \<open>
  \<^verbatim>\<open>np.nanmedian\<close> of a non-empty series of finite values: the middle order statistic, or
  the mean of the two middle ones.
\<close>

definition np_nanmedian :: "rat list \<Rightarrow> rat" where
  "np_nanmedian ys =
     (let s = sort ys; n = length s
      in if even n then (s ! (n div 2 - 1) + s ! (n div 2)) / 2 else s ! (n div 2))"

text \<open>numpy's interpolation between two neighbours, with its two branches.\<close>

definition lerp :: "rat \<Rightarrow> rat \<Rightarrow> rat \<Rightarrow> rat" where
  "lerp a b t = (if 1 / 2 \<le> t then b - (b - a) * (1 - t) else a + (b - a) * t)"

text \<open>
  \<^verbatim>\<open>np.nanpercentile(s, q)\<close> with the default method: the virtual index \<open>(n - 1) * q / 100\<close>,
  its two neighbours among the order statistics, and the interpolation between them.
\<close>

definition np_nanpercentile :: "rat list \<Rightarrow> rat \<Rightarrow> rat" where
  "np_nanpercentile ys q =
     (let s = sort ys; n = length s;
          h = of_nat (n - 1) * (q / 100);
          lo = nat \<lfloor>h\<rfloor>;
          hi = min (lo + 1) (n - 1)
      in lerp (s ! lo) (s ! hi) (h - of_nat lo))"

text \<open>
  One pass of the loop of \<^verbatim>\<open>add_val_summary\<close>:
  \<^verbatim>\<open>
  if len(s)==0:
      med=p25=p75=float("nan")
  else:
      med = float(np.nanmedian(s))
      p25 = float(np.nanpercentile(s,25))
      p75 = float(np.nanpercentile(s,75))
  rows.append([name, med, p25, p75])
  \<close>
\<close>

definition summary_stats :: "rat list \<Rightarrow> pyfloat \<times> pyfloat \<times> pyfloat" where
  "summary_stats s =
     (if length s = 0 then (NaN, NaN, NaN)
      else (Fin (np_nanmedian s), Fin (np_nanpercentile s 25), Fin (np_nanpercentile s 75)))"

definition summary_row :: "string \<Rightarrow> rat list \<Rightarrow> cell list" where
  "summary_row name s =
     (case summary_stats s of (med, p25, p75) \<Rightarrow> [StrV name, FloatV med, FloatV p25, FloatV p75])"

text \<open>The series of one metric: \<^verbatim>\<open>df[c].astype(float).replace(...).dropna()\<close>.\<close>

definition metric_series :: "strtod \<Rightarrow> dataframe \<Rightarrow> string \<Rightarrow> error + rat list" where
  "metric_series strtod df c =
     (case getitem df c of
        Inl e \<Rightarrow> Inl e
      | Inr vs \<Rightarrow> (case astype_float strtod vs of
                    Inl e \<Rightarrow> Inl e
                  | Inr fs \<Rightarrow> Inr (effective_series fs)))"

text \<open>\<^verbatim>\<open>pd.DataFrame(rows, columns=[...])\<close> for the two rows of the summary.\<close>

definition frame_of_rows :: "string list \<Rightarrow> cell list list \<Rightarrow> dataframe" where
  "frame_of_rows names rs =
     \<lparr>nrows = length rs, cols = map (\<lambda>j. (names ! j, map (\<lambda>r. r ! j) rs)) [0..<length names]\<rparr>"

definition val_summary_frame :: "rat list \<Rightarrow> rat list \<Rightarrow> dataframe" where
  "val_summary_frame ev pe =
     frame_of_rows [''Metric'', ''Median (x)'', ''25th (x)'', ''75th (x)'']
       [summary_row ''EV/EBITDA'' ev, summary_row ''P/E'' pe]"

definition add_val_summary :: "strtod \<Rightarrow> slide list \<Rightarrow> dataframe \<Rightarrow> error + slide list" where
  "add_val_summary strtod prs df =
     (case metric_series strtod df ''EV_EBITDA'' of
        Inl e \<Rightarrow> Inl e
      | Inr ev \<Rightarrow> (case metric_series strtod df ''PE'' of
                    Inl e \<Rightarrow> Inl e
                  | Inr pe \<Rightarrow> Inr (add_table prs ''Valuation Summary (EV/EBITDA & P/E)''
                                      (val_summary_frame ev pe))))"

subsection \<open>The percentile of the specification\<close>



section \<open>The key takeaways\<close>

text \<open>
  \<^verbatim>\<open>df[c].median()\<close> is pandas' median with its default \<^verbatim>\<open>skipna=True\<close>: NaN entries are
  skipped, infinite ones are not; a column holding text raises TypeError; a series with
  nothing left gives NaN. Sorted order puts \<open>-inf\<close> first and \<open>inf\<close> last.
\<close>

fun cell_number :: "cell \<Rightarrow> error + pyfloat" where
  "cell_number (IntV i) = Inr (Fin (of_int i))"
| "cell_number (FloatV f) = Inr f"
| "cell_number (BoolV b) = Inr (Fin (if b then 1 else 0))"
| "cell_number (StrV s) = Inl TypeError"

definition numeric_values :: "cell list \<Rightarrow> error + pyfloat list" where
  "numeric_values cs = map_err cell_number cs"

definition ext_sort :: "pyfloat list \<Rightarrow> pyfloat list" where
  "ext_sort ys = filter (\<lambda>v. v = NInf) ys @ map Fin (sort (fin_values ys)) @ filter (\<lambda>v. v = PInf) ys"

fun fadd :: "pyfloat \<Rightarrow> pyfloat \<Rightarrow> pyfloat" where
  "fadd (Fin a) (Fin b) = Fin (a + b)"
| "fadd NaN v = NaN"
| "fadd v NaN = NaN"
| "fadd PInf NInf = NaN"
| "fadd NInf PInf = NaN"
| "fadd PInf v = PInf"
| "fadd v PInf = PInf"
| "fadd NInf v = NInf"
| "fadd v NInf = NInf"

definition series_median :: "pyfloat list \<Rightarrow> pyfloat" where
  "series_median xs =
     (let s = ext_sort (dropna xs); n = length s
      in if n = 0 then NaN
         else if even n then fdiv_pos (fadd (s ! (n div 2 - 1)) (s ! (n div 2))) 2
         else s ! (n div 2))"


definition column_median :: "dataframe \<Rightarrow> string \<Rightarrow> error + pyfloat" where
  "column_median df c =
     (case getitem df c of
        Inl e \<Rightarrow> Inl e
      | Inr vs \<Rightarrow> (case numeric_values vs of Inl e \<Rightarrow> Inl e | Inr fs \<Rightarrow> Inr (series_median fs)))"

text \<open>The sign \<open>\<approx>\<close> and the en dash of the slide texts, as their UTF-8 bytes.\<close>

definition approx_sign :: string where
  "approx_sign = [char_of (226::nat), char_of (137::nat), char_of (136::nat)]"

definition en_dash :: string where
  "en_dash = [char_of (226::nat), char_of (128::nat), char_of (147::nat)]"

text \<open>
  \<^verbatim>\<open>f"Median EV/EBITDA \<approx> {df['EV_EBITDA'].median():.1f}x; P/E \<approx> {df['PE'].median():.1f}x"\<close>
\<close>

definition takeaway_text :: "pyfloat \<Rightarrow> pyfloat \<Rightarrow> string" where
  "takeaway_text ev pe =
     ''Median EV/EBITDA '' @ approx_sign @ '' '' @ format_1f ev @ ''x; P/E '' @ approx_sign
       @ '' '' @ format_1f pe @ ''x''"

definition takeaways :: "dataframe \<Rightarrow> error + string list" where
  "takeaways df =
     (case column_median df ''EV_EBITDA'' of
        Inl e \<Rightarrow> Inl e
      | Inr ev \<Rightarrow> (case column_median df ''PE'' of
                    Inl e \<Rightarrow> Inl e
                  | Inr pe \<Rightarrow> Inr [takeaway_text ev pe,
                       ''Prefer medians & IQR (25'' @ en_dash @ ''75th) over means due to outliers'',
                       ''Growth/margins cluster in Software/Semis within this sample'']))"


definition methodology :: "dataframe \<Rightarrow> string list" where
  "methodology df =
     [''Universe: '' @ nat_digits (nrows df) @ '' listed software comps; currency: USD; base: TTM.'',
      ''Valuation: EV/EBITDA & P/E; medians and interquartile range (25'' @ en_dash @ ''75th).'',
      ''Outliers reviewed; results illustrative. Sources: public filings & aggregators.'']"

section \<open>The table of comparable companies\<close>

text \<open>
  \<^verbatim>\<open>
  df_disp = df.copy()
  df_disp["EV_USD_bn"] = df_disp["EV_USD_m"].apply(scale_to_bn)
  df_disp["EBITDA_USD_bn"] = df_disp["EBITDA_USD_m"].apply(scale_to_bn)
  cols = [...]
  df_tbl = df_disp[cols].rename(columns={"EV_USD_bn":"EV (USD bn)","EBITDA_USD_bn":"EBITDA (USD bn)"})
  \<close>
\<close>

definition table_cols :: "string list" where
  "table_cols = [''Company'', ''Ticker'', ''Sector'', ''EV_USD_bn'', ''EBITDA_USD_bn'',
                 ''EV_EBITDA'', ''PE'', ''Rev_Growth_%'', ''EBITDA_Margin_%'']"

text \<open>The columns of the input that the lines above read.\<close>

definition required_columns :: "string list" where
  "required_columns = [''Company'', ''Ticker'', ''Sector'', ''EV_USD_m'', ''EBITDA_USD_m'',
                       ''EV_EBITDA'', ''PE'', ''Rev_Growth_%'', ''EBITDA_Margin_%'']"

definition display_table :: "strtod \<Rightarrow> dataframe \<Rightarrow> error + dataframe" where
  "display_table strtod df =
     (case getitem df ''EV_USD_m'' of
        Inl e \<Rightarrow> Inl e
      | Inr ev \<Rightarrow>
          (let d1 = setitem df ''EV_USD_bn'' (map (scale_to_bn strtod) ev)
           in case getitem d1 ''EBITDA_USD_m'' of
                Inl e \<Rightarrow> Inl e
              | Inr eb \<Rightarrow>
                  (let d2 = setitem d1 ''EBITDA_USD_bn'' (map (scale_to_bn strtod) eb)
                   in case select d2 table_cols of
                        Inl e \<Rightarrow> Inl e
                      | Inr sel \<Rightarrow>
                          Inr (rename [(''EV_USD_bn'', ''EV (USD bn)''),
                                       (''EBITDA_USD_bn'', ''EBITDA (USD bn)'')] sel))))"

section \<open>The order of the bar chart\<close>

text \<open>
  \<^verbatim>\<open>df.sort_values("EV_EBITDA", ascending=False)\<close> orders the rows by pandas' \<^verbatim>\<open>nargsort\<close>:
  the rows with a missing key go last in their input order; the keys of the others are
  reversed, handed to numpy's \<^verbatim>\<open>argsort\<close> of the default kind, and the positions it returns
  are read in reverse. numpy's routine is not part of the program: it is the parameter
  \<open>argsort\<close>, which returns positions into its argument or raises.
\<close>

type_synonym argsort = "cell list \<Rightarrow> error + nat list"

fun isna :: "cell \<Rightarrow> bool" where
  "isna (FloatV NaN) = True"
| "isna c = False"

definition nargsort_desc :: "argsort \<Rightarrow> cell list \<Rightarrow> error + nat list" where
  "nargsort_desc argsort items =
     (let idx = [0..<length items];
          non_nans = rev (filter (\<lambda>v. \<not> isna v) items);
          non_nan_idx = rev (filter (\<lambda>i. \<not> isna (items ! i)) idx);
          nan_idx = filter (\<lambda>i. isna (items ! i)) idx
      in case argsort non_nans of
           Inl e \<Rightarrow> Inl e
         | Inr perm \<Rightarrow> Inr (rev (map (\<lambda>k. non_nan_idx ! k) perm) @ nan_idx))"

definition take_rows :: "dataframe \<Rightarrow> nat list \<Rightarrow> dataframe" where
  "take_rows df indexer =
     \<lparr>nrows = length indexer,
      cols = map (\<lambda>p. (fst p, map (\<lambda>i. snd p ! i) indexer)) (cols df)\<rparr>"

definition sort_values_desc :: "argsort \<Rightarrow> dataframe \<Rightarrow> string \<Rightarrow> error + dataframe" where
  "sort_values_desc argsort df by =
     (case getitem df by of
        Inl e \<Rightarrow> Inl e
      | Inr k \<Rightarrow> (case nargsort_desc argsort k of
                   Inl e \<Rightarrow> Inl e
                 | Inr indexer \<Rightarrow> Inr (take_rows df indexer)))"

text \<open>
  What numpy promises of \<^verbatim>\<open>argsort\<close> for every kind: the positions of the items, each once,
  in ascending order of the items. Only the kinds \<^verbatim>\<open>stable\<close> and \<^verbatim>\<open>mergesort\<close> promise more,
  that items of equal value keep their order; the default kind, used here, does not.
  The order is that of numbers: \<open>-inf\<close> below every finite value, \<open>inf\<close> above.
\<close>

definition value_le :: "cell \<Rightarrow> cell \<Rightarrow> bool" where
  "value_le a b =
     (case cell_number a of
        Inl e \<Rightarrow> False
      | Inr x \<Rightarrow> (case cell_number b of
                    Inl e \<Rightarrow> False
                  | Inr y \<Rightarrow> (case x of
                       NaN \<Rightarrow> False
                     | NInf \<Rightarrow> y \<noteq> NaN
                     | PInf \<Rightarrow> y = PInf
                     | Fin r \<Rightarrow> (case y of Fin q \<Rightarrow> r \<le> q | PInf \<Rightarrow> True | _ \<Rightarrow> False))))"

definition sorting_result :: "cell list \<Rightarrow> nat list \<Rightarrow> bool" where
  "sorting_result items perm =
     (distinct perm \<and> set perm = {0..<length items}
      \<and> sorted_wrt (\<lambda>i j. value_le (items ! i) (items ! j)) perm)"

definition stable_result :: "cell list \<Rightarrow> nat list \<Rightarrow> bool" where
  "stable_result items perm =
     (\<forall>b < length perm. \<forall>a < b.
        value_le (items ! (perm ! a)) (items ! (perm ! b))
        \<and> value_le (items ! (perm ! b)) (items ! (perm ! a))
        \<longrightarrow> perm ! a < perm ! b)"

section \<open>The run\<close>

text \<open>\<^verbatim>\<open>os.path.dirname\<close> and \<^verbatim>\<open>os.path.join\<close> on POSIX paths.\<close>

definition rstrip_sep :: "string \<Rightarrow> string" where
  "rstrip_sep p = rev (dropWhile (\<lambda>c. c = CHR ''/'') (rev p))"

definition dirname :: "string \<Rightarrow> string" where
  "dirname p =
     (let head = rev (dropWhile (\<lambda>c. c \<noteq> CHR ''/'') (rev p))
      in if head \<noteq> [] \<and> \<not> list_all (\<lambda>c. c = CHR ''/'') head then rstrip_sep head else head)"

definition path_join :: "string \<Rightarrow> string \<Rightarrow> string" where
  "path_join a b =
     (if b \<noteq> [] \<and> hd b = CHR ''/'' then b
      else if a = [] \<or> last a = CHR ''/'' then a @ b
      else a @ ''/'' @ b)"

text \<open>
  What a run writes to disk, in the order of the writes: the output directory, the two
  chart images with the data handed to the chart renderer, and the deck.
\<close>

datatype artifact =
    MakeDirs string
  | BarChart string "cell list" "cell list"
  | ScatterChart string "cell list" "cell list"
  | Deck string "slide list"

record args =
  csv :: string
  out :: string
  title :: string

text \<open>\<^verbatim>\<open>os.makedirs(d, exist_ok=True)\<close>: the empty path raises FileNotFoundError.\<close>

definition makedirs :: "string \<Rightarrow> error + artifact" where
  "makedirs d = (if d = [] then Inl FileNotFoundError else Inr (MakeDirs d))"

text \<open>\<^verbatim>\<open>plt.bar(df['Company'], df['EV_EBITDA'])\<close> and \<^verbatim>\<open>plt.scatter(df['Rev_Growth_%'], df['PE'])\<close>.\<close>

definition build_bar_chart_ev_ebitda :: "dataframe \<Rightarrow> string \<Rightarrow> error + artifact" where
  "build_bar_chart_ev_ebitda df out_path =
     (case getitem df ''Company'' of
        Inl e \<Rightarrow> Inl e
      | Inr names \<Rightarrow> (case getitem df ''EV_EBITDA'' of
                       Inl e \<Rightarrow> Inl e
                     | Inr vals \<Rightarrow> Inr (BarChart out_path names vals)))"

definition build_scatter_pe_growth :: "dataframe \<Rightarrow> string \<Rightarrow> error + artifact" where
  "build_scatter_pe_growth df out_path =
     (case getitem df ''Rev_Growth_%'' of
        Inl e \<Rightarrow> Inl e
      | Inr xs \<Rightarrow> (case getitem df ''PE'' of
                    Inl e \<Rightarrow> Inl e
                  | Inr ys \<Rightarrow> Inr (ScatterChart out_path xs ys)))"

text \<open>The slides, lines 128 to 143 of the program, in their order.\<close>

definition build_deck :: "strtod \<Rightarrow> string \<Rightarrow> dataframe \<Rightarrow> dataframe \<Rightarrow> string \<Rightarrow> string
    \<Rightarrow> error + slide list" where
  "build_deck strtod ttl df df_tbl chart1 chart2 =
     (let prs = add_title_slide [] ttl ''Auto-generated from comps CSV''
      in case takeaways df of
           Inl e \<Rightarrow> Inl e
         | Inr bullets \<Rightarrow>
             (let prs = add_bullets_slide prs ''Key Takeaways'' bullets;
                  prs = add_table prs ''Comparable Companies Table'' df_tbl;
                  prs = add_picture prs (''EV/EBITDA '' @ en_dash @ '' Distribution'') chart1 None;
                  prs = add_picture prs ''P/E vs Revenue Growth'' chart2
                          (Some ''Illustrative only; ensure sector comparability.'')
              in case add_val_summary strtod prs df of
                   Inl e \<Rightarrow> Inl e
                 | Inr prs \<Rightarrow>
                     Inr (add_bullets_slide prs ''Methodology & Sources'' (methodology df))))"

text \<open>
  \<^verbatim>\<open>main\<close>, from the loaded data frame on. The result is the list of the writes done, in
  their order, and the outcome: the error raised, or the line printed at the end.
\<close>

definition main :: "strtod \<Rightarrow> argsort \<Rightarrow> args \<Rightarrow> dataframe \<Rightarrow> artifact list \<times> (error + string)" where
  "main strtod argsort a df =
     (case display_table strtod df of
        Inl e \<Rightarrow> ([], Inl e)
      | Inr df_tbl \<Rightarrow>
     (case sort_values_desc argsort df ''EV_EBITDA'' of
        Inl e \<Rightarrow> ([], Inl e)
      | Inr df_bar \<Rightarrow>
     (case makedirs (dirname (out a)) of
        Inl e \<Rightarrow> ([], Inl e)
      | Inr dir \<Rightarrow>
     (let chart1 = path_join (dirname (out a)) ''ev_ebitda_chart.png'';
          chart2 = path_join (dirname (out a)) ''pe_vs_growth.png''
      in case build_bar_chart_ev_ebitda df_bar chart1 of
           Inl e \<Rightarrow> ([dir], Inl e)
         | Inr bar \<Rightarrow>
        (case build_scatter_pe_growth df chart2 of
           Inl e \<Rightarrow> ([dir, bar], Inl e)
         | Inr scatter \<Rightarrow>
        (case build_deck strtod (title a) df df_tbl chart1 chart2 of
           Inl e \<Rightarrow> ([dir, bar, scatter], Inl e)
         | Inr prs \<Rightarrow>
             ([dir, bar, scatter, Deck (out a) prs], Inr (''Saved deck to: '' @ out a))))))))"

section \<open>Sample inputs\<close>

text \<open>A frame whose EV/EBITDA column has no finite value.\<close>

definition ex_empty_df :: dataframe where
  "ex_empty_df =
     \<lparr>nrows = 2,
      cols = [(''EV_EBITDA'', [FloatV NaN, FloatV PInf]), (''PE'', [IntV 3, FloatV NaN])]\<rparr>"

text \<open>The two companies of the specification's scenario.\<close>

definition ex_two_df :: dataframe where
  "ex_two_df =
     \<lparr>nrows = 2,
      cols = [(''Company'', [StrV ''A'', StrV ''B'']),
              (''Ticker'', [StrV ''AAA'', StrV ''BBB'']),
              (''Sector'', [StrV ''Software'', StrV ''Semis'']),
              (''EV_USD_m'', [IntV 5000, IntV 2000]),
              (''EBITDA_USD_m'', [IntV 500, IntV 100]),
              (''EV_EBITDA'', [FloatV (Fin 10), FloatV (Fin 20)]),
              (''PE'', [FloatV (Fin 20), FloatV (Fin 40)]),
              (''Rev_Growth_%'', [FloatV (Fin 15), FloatV (Fin 5)]),
              (''EBITDA_Margin_%'', [FloatV (Fin 30), FloatV (Fin 10)])]\<rparr>"

text \<open>The same data without the column \<^verbatim>\<open>PE\<close>.\<close>

definition ex_no_pe_df :: dataframe where
  "ex_no_pe_df = ex_two_df\<lparr>cols := filter (\<lambda>p. fst p \<noteq> ''PE'') (cols ex_two_df)\<rparr>"

text \<open>The same data with a text in the column \<^verbatim>\<open>PE\<close>.\<close>

definition ex_text_pe_df :: dataframe where
  "ex_text_pe_df = setitem ex_two_df ''PE'' [StrV ''n.m.'', StrV ''40.0'']"


text \<open>Four companies, two with the same multiple and one with none.\<close>

definition ex_ties_df :: dataframe where
  "ex_ties_df =
     \<lparr>nrows = 4,
      cols = [(''Company'', [StrV ''A'', StrV ''B'', StrV ''C'', StrV ''D'']),
              (''EV_EBITDA'', [FloatV (Fin 10), FloatV NaN, FloatV (Fin 20), IntV 10])]\<rparr>"

text \<open>
  A sorting routine for the sample runs: the positions of the numeric keys in ascending
  order of the keys, by stable insertion; text among the keys raises TypeError.
\<close>

fun float_key :: "pyfloat \<Rightarrow> int \<times> rat" where
  "float_key NInf = (-1, 0)"
| "float_key (Fin r) = (0, r)"
| "float_key PInf = (1, 0)"
| "float_key NaN = (2, 0)"

definition key_le :: "pyfloat \<Rightarrow> pyfloat \<Rightarrow> bool" where
  "key_le a b = (fst (float_key a) < fst (float_key b)
                 \<or> fst (float_key a) = fst (float_key b) \<and> snd (float_key a) \<le> snd (float_key b))"

fun insert_pos :: "pyfloat list \<Rightarrow> nat \<Rightarrow> nat list \<Rightarrow> nat list" where
  "insert_pos ks i [] = [i]"
| "insert_pos ks i (j # js) = (if key_le (ks ! j) (ks ! i) then j # insert_pos ks i js else i # j # js)"

definition insertion_argsort :: argsort where
  "insertion_argsort items =
     (case numeric_values items of
        Inl e \<Rightarrow> Inl e
      | Inr ks \<Rightarrow> Inr (foldl (\<lambda>acc i. insert_pos ks i acc) [] [0..<length ks]))"

definition ex_args :: args where
  "ex_args = \<lparr>csv = ''comps.csv'', out = ''output/pitch_comps.pptx'', title = ''Comparable Companies''\<rparr>"

section \<open>Properties of the unit scaler and of the cell format\<close>



text \<open>
  C10. A cell that is not a float is rendered by \<^verbatim>\<open>str\<close> alone: its text does not depend
  on the column name, so no format category is applied to it.
\<close>

theorem cell_text_non_float_verbatim:
  "\<not> is_float v \<Longrightarrow>
     cell_text col v = (case v of IntV i \<Rightarrow> str_int i | StrV s \<Rightarrow> s
                        | BoolV b \<Rightarrow> (if b then ''True'' else ''False'') | FloatV f \<Rightarrow> [])
     \<and> cell_text col v = cell_text col' v"
  by (cases v) simp_all

theorem cell_text_non_float_verbatim_witness:
  "\<not> is_float (IntV 30)
   \<and> cell_text ''EBITDA_Margin_%'' (IntV 30) = ''30''
   \<and> cell_text ''EBITDA_Margin_%'' (IntV 30) = cell_text ''PE'' (IntV 30)"
proof -
  have e: "str_int 30 = ''30''" by code_simp
  show ?thesis
    using cell_text_non_float_verbatim [of "IntV 30" "''EBITDA_Margin_%''" "''PE''"] e
    by simp
qed

lemma starts_with_iff: "starts_with s p \<longleftrightarrow> (\<exists>q. s = p @ q)"
  by (induction s p rule: starts_with.induct) auto

lemma str_contains_iff: "str_contains needle s \<longleftrightarrow> (\<exists>p q. s = p @ needle @ q)"
proof (induction s)
  case Nil
  show ?case by simp
next
  case (Cons c cs)
  show ?case
  proof
    assume "str_contains needle (c # cs)"
    then consider "starts_with (c # cs) needle" | "str_contains needle cs" by auto
    then show "\<exists>p q. c # cs = p @ needle @ q"
    proof cases
      case 1
      then obtain q where "c # cs = needle @ q" by (auto simp: starts_with_iff)
      then have "c # cs = [] @ needle @ q" by simp
      then show ?thesis by blast
    next
      case 2
      then obtain p q where "cs = p @ needle @ q" using Cons by blast
      then have "c # cs = (c # p) @ needle @ q" by simp
      then show ?thesis by blast
    qed
  next
    assume "\<exists>p q. c # cs = p @ needle @ q"
    then obtain p q where e: "c # cs = p @ needle @ q" by blast
    show "str_contains needle (c # cs)"
    proof (cases p)
      case Nil
      then have "starts_with (c # cs) needle" using e by (auto simp: starts_with_iff)
      then show ?thesis by simp
    next
      case (Cons a p')
      then have "cs = p' @ needle @ q" using e by simp
      then have "str_contains needle cs" using Cons.IH by blast
      then show ?thesis by simp
    qed
  qed
qed

lemma category_refines: "cell_text name (FloatV v) = spec_render (spec_category name) v"
  by (simp add: spec_category_def)

lemma category_percentage:
  "str_contains ''Margin'' name \<or> str_contains ''Growth'' name
   \<Longrightarrow> spec_category name = Percentage \<and> cell_text name (FloatV v) = format_1f v @ ''%''"
  by (simp add: spec_category_def)

lemma category_multiple:
  "\<not> (str_contains ''Margin'' name \<or> str_contains ''Growth'' name)
   \<Longrightarrow> str_contains ''EV/EBITDA'' name \<or> str_contains ''EV_EBITDA'' name
       \<or> str_contains ''P/E'' name \<or> name = ''PE''
   \<Longrightarrow> spec_category name = Multiple \<and> cell_text name (FloatV v) = format_1f v @ ''x''"
  unfolding spec_category_def cell_text.simps
  by (simp only: if_True if_False simp_thms)

lemma category_plain:
  "\<not> (str_contains ''Margin'' name \<or> str_contains ''Growth'' name)
   \<Longrightarrow> \<not> (str_contains ''EV/EBITDA'' name \<or> str_contains ''EV_EBITDA'' name
          \<or> str_contains ''P/E'' name \<or> name = ''PE'')
   \<Longrightarrow> spec_category name = PlainDecimal \<and> cell_text name (FloatV v) = format_1f v"
  unfolding spec_category_def cell_text.simps
  by (simp only: if_True if_False simp_thms)

text \<open>
  C5. The format applied to a float cell is that of the category which the
  specification's rule gives to the column name: percentage when the name contains
  \<^verbatim>\<open>Margin\<close> or \<^verbatim>\<open>Growth\<close>; otherwise multiple when it contains \<^verbatim>\<open>EV/EBITDA\<close>, \<^verbatim>\<open>EV_EBITDA\<close>
  or \<^verbatim>\<open>P/E\<close>, or is \<^verbatim>\<open>PE\<close>; otherwise plain decimal. The category depends on the name
  alone, and the three cases exclude each other.
\<close>

theorem cell_text_format_category:
  "cell_text name (FloatV v) = spec_render (spec_category name) v
   \<and> (str_contains ''Margin'' name \<or> str_contains ''Growth'' name
        \<longrightarrow> spec_category name = Percentage \<and> cell_text name (FloatV v) = format_1f v @ ''%'')
   \<and> (\<not> (str_contains ''Margin'' name \<or> str_contains ''Growth'' name)
        \<and> (str_contains ''EV/EBITDA'' name \<or> str_contains ''EV_EBITDA'' name
             \<or> str_contains ''P/E'' name \<or> name = ''PE'')
        \<longrightarrow> spec_category name = Multiple \<and> cell_text name (FloatV v) = format_1f v @ ''x'')
   \<and> (\<not> (str_contains ''Margin'' name \<or> str_contains ''Growth'' name)
        \<and> \<not> (str_contains ''EV/EBITDA'' name \<or> str_contains ''EV_EBITDA'' name
               \<or> str_contains ''P/E'' name \<or> name = ''PE'')
        \<longrightarrow> spec_category name = PlainDecimal \<and> cell_text name (FloatV v) = format_1f v)"
  using category_refines category_percentage [of name v] category_multiple [of name v]
    category_plain [of name v]
  by blast

theorem cell_text_format_category_witness:
  "str_contains ''Growth'' ''P/E Growth''
   \<and> str_contains ''P/E'' ''P/E Growth''
   \<and> spec_category ''P/E Growth'' = Percentage
   \<and> cell_text ''P/E Growth'' (FloatV (Fin 5)) = format_1f (Fin 5) @ ''%''"
proof -
  have a: "str_contains ''Growth'' ''P/E Growth''" by code_simp
  have b: "str_contains ''P/E'' ''P/E Growth''" by code_simp
  show ?thesis
    using cell_text_format_category [of "''P/E Growth''" "Fin 5"] a b by blast
qed

section \<open>Properties of the statistical summary\<close>

subsection \<open>The percentiles are interpolated order statistics\<close>


lemma floor_frac_zero:
  fixes h :: rat
  assumes "0 \<le> h" "h - of_nat (nat \<lfloor>h\<rfloor>) = 0"
  shows "h = of_nat (nat \<lfloor>h\<rfloor>)"
  using assms by simp






subsection \<open>The percentile grows with its rank\<close>









subsection \<open>The summary of a series\<close>







lemma upt_4: "[0..<4] = [0, 1, 2, 3]"
  by code_simp

lemma summary_grid:
  "table_grid (val_summary_frame ev pe) =
     [[''Metric'', ''Median (x)'', ''25th (x)'', ''75th (x)''],
      map2 cell_text [''Metric'', ''Median (x)'', ''25th (x)'', ''75th (x)''] (summary_row ''EV/EBITDA'' ev),
      map2 cell_text [''Metric'', ''Median (x)'', ''25th (x)'', ''75th (x)''] (summary_row ''P/E'' pe)]"
proof -
  have two: "[0..<2] = [0, Suc 0]" by code_simp
  obtain a b c where e: "summary_stats ev = (a, b, c)" by (cases "summary_stats ev")
  obtain a' b' c' where p: "summary_stats pe = (a', b', c')" by (cases "summary_stats pe")
  show ?thesis
    by (simp add: table_grid_def table_header_def table_row_def val_summary_frame_def
        frame_of_rows_def upt_4 two summary_row_def e p)
qed


lemma nan_row:
  "map2 cell_text [''Metric'', ''Median (x)'', ''25th (x)'', ''75th (x)''] (summary_row name [])
     = [name, ''nan'', ''nan'', ''nan'']"
proof -
  have a: "cell_text ''Median (x)'' (FloatV NaN) = ''nan''" by code_simp
  have b: "cell_text ''25th (x)'' (FloatV NaN) = ''nan''" by code_simp
  have c: "cell_text ''75th (x)'' (FloatV NaN) = ''nan''" by code_simp
  have st: "summary_stats [] = (NaN, NaN, NaN)" by (simp add: summary_stats_def)
  show ?thesis
    unfolding summary_row_def st
    by (simp only: prod.case zip_Cons_Cons zip_Nil list.map a b c cell_text.simps(3))
qed

lemma add_val_summary_ok:
  assumes "metric_series sd df ''EV_EBITDA'' = Inr ev" "metric_series sd df ''PE'' = Inr pe"
  shows "add_val_summary sd prs df =
     Inr (prs @ [TableSlide ''Valuation Summary (EV/EBITDA & P/E)'' (table_grid (val_summary_frame ev pe))])"
  using assms by (simp add: add_val_summary_def add_table_def)

text \<open>
  C2. When no entry of a series is left, the three statistics are NaN (not 0), the
  summary slide is still built, and the row of the metric shows \<^verbatim>\<open>nan\<close> in its three
  cells.
\<close>

theorem empty_series_undefined:
  "effective_series xs = [] \<Longrightarrow>
     summary_stats (effective_series xs) = (NaN, NaN, NaN)
     \<and> fst (summary_stats (effective_series xs)) \<noteq> Fin 0
     \<and> table_grid (val_summary_frame (effective_series xs) pe) ! 1
          = [''EV/EBITDA'', ''nan'', ''nan'', ''nan'']
     \<and> table_grid (val_summary_frame ev (effective_series xs)) ! 2
          = [''P/E'', ''nan'', ''nan'', ''nan'']
     \<and> (metric_series sd df ''EV_EBITDA'' = Inr (effective_series xs)
          \<and> metric_series sd df ''PE'' = Inr pe
        \<longrightarrow> add_val_summary sd prs df =
              Inr (prs @ [TableSlide ''Valuation Summary (EV/EBITDA & P/E)''
                            (table_grid (val_summary_frame (effective_series xs) pe))]))"
proof -
  assume e: "effective_series xs = []"
  have 1: "summary_stats (effective_series xs) = (NaN, NaN, NaN)"
    by (simp add: e summary_stats_def)
  have 2: "fst (summary_stats (effective_series xs)) \<noteq> Fin 0" by (simp add: 1)
  have 3: "table_grid (val_summary_frame (effective_series xs) pe) ! 1
      = [''EV/EBITDA'', ''nan'', ''nan'', ''nan'']"
    unfolding e summary_grid by (simp only: nth_Cons_0 nth_Cons_Suc One_nat_def nan_row)
  have two: "(2::nat) = Suc (Suc 0)" by simp
  have 4: "table_grid (val_summary_frame ev (effective_series xs)) ! 2
      = [''P/E'', ''nan'', ''nan'', ''nan'']"
    unfolding e summary_grid two by (simp only: nth_Cons_0 nth_Cons_Suc nan_row)
  have 5: "metric_series sd df ''EV_EBITDA'' = Inr (effective_series xs)
          \<and> metric_series sd df ''PE'' = Inr pe
        \<longrightarrow> add_val_summary sd prs df =
              Inr (prs @ [TableSlide ''Valuation Summary (EV/EBITDA & P/E)''
                            (table_grid (val_summary_frame (effective_series xs) pe))])"
    using add_val_summary_ok by blast
  show ?thesis using 1 2 3 4 5 by blast
qed

theorem empty_series_undefined_witness:
  "effective_series [NaN, PInf] = []
   \<and> summary_stats (effective_series [NaN, PInf]) = (NaN, NaN, NaN)
   \<and> metric_series (\<lambda>s. None) ex_empty_df ''EV_EBITDA'' = Inr (effective_series [NaN, PInf])
   \<and> metric_series (\<lambda>s. None) ex_empty_df ''PE'' = Inr [3]
   \<and> add_val_summary (\<lambda>s. None) [] ex_empty_df =
        Inr ([] @ [TableSlide ''Valuation Summary (EV/EBITDA & P/E)''
                    (table_grid (val_summary_frame (effective_series [NaN, PInf]) [3]))])
   \<and> table_grid (val_summary_frame (effective_series [NaN, PInf]) [3]) ! 1
        = [''EV/EBITDA'', ''nan'', ''nan'', ''nan'']"
proof -
  have h1: "effective_series [NaN, PInf] = []" by code_simp
  have h2: "metric_series (\<lambda>s. None) ex_empty_df ''EV_EBITDA'' = Inr (effective_series [NaN, PInf])"
    by code_simp
  have h3: "metric_series (\<lambda>s. None) ex_empty_df ''PE'' = Inr [3]" by code_simp
  show ?thesis
    using empty_series_undefined [OF h1, of "[3]" "[]" "\<lambda>s. None" ex_empty_df "[]"] h1 h2 h3
    by blast
qed



section \<open>Properties of the table of comparable companies\<close>

subsection \<open>Reading and writing columns\<close>

lemma in_columns_iff: "c \<in> set (columns df) \<longleftrightarrow> map_of (cols df) c \<noteq> None"
  by (simp add: columns_def map_of_eq_None_iff)

lemma getitem_present:
  "c \<in> set (columns df) \<Longrightarrow> getitem df c = Inr (column_values df c)"
  by (auto simp: in_columns_iff getitem_def column_values_def)

lemma getitem_absent:
  "c \<notin> set (columns df) \<Longrightarrow> getitem df c = Inl (KeyError [c])"
  by (auto simp: in_columns_iff getitem_def)


lemma columns_update_col: "fst ` set (update_col c vs ps) = insert c (fst ` set ps)"
  by (induction ps) auto

lemma columns_setitem: "set (columns (setitem df c vs)) = insert c (set (columns df))"
  by (simp add: columns_def setitem_def columns_update_col)




lemma select_absent:
  assumes "c \<in> set names" "c \<notin> set (columns df)"
  shows "select df names = Inl (KeyError (filter (\<lambda>c. c \<notin> set (columns df)) names))"
    and "filter (\<lambda>c. c \<notin> set (columns df)) names \<noteq> []"
proof -
  show ne: "filter (\<lambda>c. c \<notin> set (columns df)) names \<noteq> []"
    using assms by (auto simp: filter_empty_conv)
  then show "select df names = Inl (KeyError (filter (\<lambda>c. c \<notin> set (columns df)) names))"
    by (simp add: select_def)
qed



subsection \<open>The grid of the table\<close>







section \<open>Properties of the run\<close>

lemma display_table_missing:
  assumes c: "c \<in> set required_columns" and nc: "c \<notin> set (columns df)"
  shows "\<exists>ms. display_table sd df = Inl (KeyError ms) \<and> ms \<noteq> []
           \<and> set ms \<subseteq> set required_columns - set (columns df)"
proof (cases "''EV_USD_m'' \<in> set (columns df)")
  case False
  then have "display_table sd df = Inl (KeyError [''EV_USD_m''])"
    by (simp add: display_table_def getitem_absent)
  then show ?thesis using False by (simp add: required_columns_def)
next
  case ev: True
  define d1 where "d1 = setitem df ''EV_USD_bn'' (map (scale_to_bn sd) (column_values df ''EV_USD_m''))"
  have g1: "getitem df ''EV_USD_m'' = Inr (column_values df ''EV_USD_m'')"
    by (rule getitem_present[OF ev])
  have c1: "set (columns d1) = insert ''EV_USD_bn'' (set (columns df))"
    by (simp add: d1_def columns_setitem)
  show ?thesis
  proof (cases "''EBITDA_USD_m'' \<in> set (columns df)")
    case False
    then have "''EBITDA_USD_m'' \<notin> set (columns d1)" by (simp add: c1)
    then have "getitem d1 ''EBITDA_USD_m'' = Inl (KeyError [''EBITDA_USD_m''])"
      by (rule getitem_absent)
    then have "display_table sd df = Inl (KeyError [''EBITDA_USD_m''])"
      unfolding display_table_def g1 sum.case Let_def d1_def[symmetric] by simp
    then show ?thesis using False by (simp add: required_columns_def)
  next
    case eb: True
    define d2 where "d2 = setitem d1 ''EBITDA_USD_bn'' (map (scale_to_bn sd) (column_values d1 ''EBITDA_USD_m''))"
    define ms where "ms = filter (\<lambda>c. c \<notin> set (columns d2)) table_cols"
    have "''EBITDA_USD_m'' \<in> set (columns d1)" using eb by (simp add: c1)
    then have g2: "getitem d1 ''EBITDA_USD_m'' = Inr (column_values d1 ''EBITDA_USD_m'')"
      by (rule getitem_present)
    have c2: "set (columns d2) = insert ''EBITDA_USD_bn'' (insert ''EV_USD_bn'' (set (columns df)))"
      by (simp add: d2_def c1 columns_setitem)
    have "c \<noteq> ''EV_USD_m''" "c \<noteq> ''EBITDA_USD_m''" using nc ev eb by auto
    then have ct: "c \<in> set table_cols" "c \<noteq> ''EV_USD_bn''" "c \<noteq> ''EBITDA_USD_bn''"
      using c by (auto simp: required_columns_def table_cols_def)
    then have nc2: "c \<notin> set (columns d2)" using nc by (simp add: c2)
    have sel: "select d2 table_cols = Inl (KeyError ms)" and ne: "ms \<noteq> []"
      unfolding ms_def by (rule select_absent[OF ct(1) nc2])+
    have dt: "display_table sd df = Inl (KeyError ms)"
      unfolding display_table_def g1 sum.case Let_def d1_def[symmetric] g2 d2_def[symmetric] sel ..
    have "set ms \<subseteq> set required_columns - set (columns df)"
      unfolding ms_def c2 by (auto simp: table_cols_def required_columns_def)
    then show ?thesis using dt ne by blast
  qed
qed

lemma build_deck_length: "build_deck sd ttl df t c1 c2 = Inr prs \<Longrightarrow> length prs = 7"
  by (auto simp: build_deck_def Let_def add_title_slide_def add_bullets_slide_def add_table_def
      add_picture_def add_val_summary_def split: sum.splits)

lemma main_success:
  assumes "main sd srt a df = (w, Inr msg)"
  shows "\<exists>t d names vals xs ys prs.
           display_table sd df = Inr t
           \<and> build_deck sd (title a) df t (path_join (dirname (out a)) ''ev_ebitda_chart.png'')
                (path_join (dirname (out a)) ''pe_vs_growth.png'') = Inr prs
           \<and> w = [MakeDirs d,
                  BarChart (path_join (dirname (out a)) ''ev_ebitda_chart.png'') names vals,
                  ScatterChart (path_join (dirname (out a)) ''pe_vs_growth.png'') xs ys,
                  Deck (out a) prs]"
  using assms
  by (auto simp: main_def Let_def makedirs_def build_bar_chart_ev_ebitda_def
      build_scatter_pe_growth_def split: sum.splits if_splits)

lemma main_error:
  assumes "main sd srt a df = (w, Inl e)"
  shows "Deck p prs \<notin> set w"
  using assms
  by (auto simp: main_def Let_def makedirs_def build_bar_chart_ev_ebitda_def
      build_scatter_pe_growth_def split: sum.splits if_splits)

lemma main_missing:
  assumes "display_table sd df = Inl e"
  shows "main sd srt a df = ([], Inl e)"
  using assms by (simp add: main_def)


text \<open>
  C9. When a column of the schema is absent, the run ends with a KeyError naming absent
  columns and has written nothing: no directory, no chart image, no deck. In every run the
  deck, when it is written, is the last write, it holds all seven slides, and the run
  succeeds; a run that ends with an error has written no deck.
\<close>

theorem missing_column_aborts_before_writes:
  "(c \<in> set required_columns \<and> c \<notin> set (columns df) \<longrightarrow>
      (\<exists>ms. main sd srt a df = ([], Inl (KeyError ms)) \<and> ms \<noteq> []
            \<and> set ms \<subseteq> set required_columns - set (columns df)))
   \<and> (\<forall>p prs. Deck p prs \<in> set (fst (main sd srt a df)) \<longrightarrow>
         p = out a \<and> last (fst (main sd srt a df)) = Deck p prs
         \<and> snd (main sd srt a df) = Inr (''Saved deck to: '' @ out a)
         \<and> length prs = 7
         \<and> (\<exists>t c1 c2. display_table sd df = Inr t \<and> build_deck sd (title a) df t c1 c2 = Inr prs))
   \<and> (\<forall>e. snd (main sd srt a df) = Inl e \<longrightarrow>
         (\<forall>p prs. Deck p prs \<notin> set (fst (main sd srt a df))))"
proof (intro conjI impI allI)
  assume "c \<in> set required_columns \<and> c \<notin> set (columns df)"
  then obtain ms where "display_table sd df = Inl (KeyError ms)" "ms \<noteq> []"
    "set ms \<subseteq> set required_columns - set (columns df)"
    using display_table_missing by blast
  then show "\<exists>ms. main sd srt a df = ([], Inl (KeyError ms)) \<and> ms \<noteq> []
            \<and> set ms \<subseteq> set required_columns - set (columns df)"
    using main_missing by blast
next
  fix p prs
  assume d: "Deck p prs \<in> set (fst (main sd srt a df))"
  obtain w r where m: "main sd srt a df = (w, r)" by (cases "main sd srt a df")
  have "\<exists>msg. r = Inr msg"
  proof (cases r)
    case (Inl e)
    then show ?thesis using main_error[of sd srt a df w e p prs] m d by simp
  qed simp
  then obtain msg where r: "r = Inr msg" by blast
  from main_success[OF m[unfolded r]] obtain t dd names vals xs ys prs' where
    t: "display_table sd df = Inr t"
    and b: "build_deck sd (title a) df t (path_join (dirname (out a)) ''ev_ebitda_chart.png'')
                (path_join (dirname (out a)) ''pe_vs_growth.png'') = Inr prs'"
    and w: "w = [MakeDirs dd,
                  BarChart (path_join (dirname (out a)) ''ev_ebitda_chart.png'') names vals,
                  ScatterChart (path_join (dirname (out a)) ''pe_vs_growth.png'') xs ys,
                  Deck (out a) prs']"
    by blast
  have e: "p = out a" "prs = prs'" using d m w by auto
  show "p = out a" by (rule e)
  show "last (fst (main sd srt a df)) = Deck p prs" using m w e by simp
  show "snd (main sd srt a df) = Inr (''Saved deck to: '' @ out a)"
    using m r by (auto simp: main_def Let_def split: sum.splits)
  show "length prs = 7" using build_deck_length[OF b] e by simp
  show "\<exists>t c1 c2. display_table sd df = Inr t \<and> build_deck sd (title a) df t c1 c2 = Inr prs"
    using t b e by blast
next
  fix e p prs
  assume "snd (main sd srt a df) = Inl e"
  then have "main sd srt a df = (fst (main sd srt a df), Inl e)" by (metis prod.collapse)
  then show "Deck p prs \<notin> set (fst (main sd srt a df))" by (rule main_error)
qed

theorem missing_column_aborts_before_writes_witness:
  "''PE'' \<in> set required_columns \<and> ''PE'' \<notin> set (columns ex_no_pe_df)
   \<and> main (\<lambda>s. None) insertion_argsort ex_args ex_no_pe_df = ([], Inl (KeyError [''PE'']))
   \<and> (\<exists>ms. main (\<lambda>s. None) insertion_argsort ex_args ex_no_pe_df = ([], Inl (KeyError ms)))
   \<and> (\<exists>prs. Deck (out ex_args) prs \<in> set (fst (main (\<lambda>s. None) insertion_argsort ex_args ex_two_df))
          \<and> last (fst (main (\<lambda>s. None) insertion_argsort ex_args ex_two_df)) = Deck (out ex_args) prs
          \<and> length prs = 7)
   \<and> snd (main (\<lambda>s. None) insertion_argsort ex_args ex_text_pe_df) = Inl TypeError
   \<and> length (fst (main (\<lambda>s. None) insertion_argsort ex_args ex_text_pe_df)) = 3
   \<and> (\<forall>p prs. Deck p prs \<notin> set (fst (main (\<lambda>s. None) insertion_argsort ex_args ex_text_pe_df)))"
proof -
  have h1: "''PE'' \<in> set required_columns \<and> ''PE'' \<notin> set (columns ex_no_pe_df)" by code_simp
  have h2: "main (\<lambda>s. None) insertion_argsort ex_args ex_no_pe_df = ([], Inl (KeyError [''PE'']))"
    by code_simp
  have h3: "\<exists>prs. Deck (out ex_args) prs \<in> set (fst (main (\<lambda>s. None) insertion_argsort ex_args ex_two_df))"
  proof -
    have "case fst (main (\<lambda>s. None) insertion_argsort ex_args ex_two_df) of
            [a, b, c, Deck p prs] \<Rightarrow> p = out ex_args | _ \<Rightarrow> False"
      by code_simp
    then show ?thesis by (auto split: list.splits artifact.splits)
  qed
  have h4: "snd (main (\<lambda>s. None) insertion_argsort ex_args ex_text_pe_df) = Inl TypeError"
    by code_simp
  have h5: "length (fst (main (\<lambda>s. None) insertion_argsort ex_args ex_text_pe_df)) = 3"
    by code_simp
  note t2 = missing_column_aborts_before_writes
    [of "''PE''" ex_two_df "\<lambda>s. None" insertion_argsort ex_args]
  note t3 = missing_column_aborts_before_writes
    [of "''PE''" ex_text_pe_df "\<lambda>s. None" insertion_argsort ex_args]
  from h3 obtain prs where
    d: "Deck (out ex_args) prs \<in> set (fst (main (\<lambda>s. None) insertion_argsort ex_args ex_two_df))"
    by blast
  have a: "last (fst (main (\<lambda>s. None) insertion_argsort ex_args ex_two_df)) = Deck (out ex_args) prs
      \<and> length prs = 7"
    using t2 d by blast
  have b: "\<forall>p prs. Deck p prs \<notin> set (fst (main (\<lambda>s. None) insertion_argsort ex_args ex_text_pe_df))"
    using t3 h4 by blast
  have c: "\<exists>ms. main (\<lambda>s. None) insertion_argsort ex_args ex_no_pe_df = ([], Inl (KeyError ms))"
    using missing_column_aborts_before_writes
      [of "''PE''" ex_no_pe_df "\<lambda>s. None" insertion_argsort ex_args] h1
    by blast
  show ?thesis using h1 h2 c d a h4 h5 b by blast
qed

section \<open>Properties of the key takeaways\<close>














section \<open>Properties of the order of the bar chart\<close>

text \<open>
  The rows handed to the bar chart are those of the input, each once. Whatever sorting
  routine numpy runs, as long as it returns the positions in ascending order of the keys,
  the rows that have a multiple come first, in descending order of the multiple, and the
  rows without one come last. Rows of equal multiple keep their input order when the
  routine keeps items of equal value in order; the program does not ask numpy for such a
  routine, so nothing here says that they do in general.
\<close>

lemma map_nth_filter_upt:
  "map (\<lambda>i. vs ! i) (filter (\<lambda>i. keep (vs ! i)) [0..<length vs]) = filter keep vs"
proof (induction vs rule: rev_induct)
  case Nil
  show ?case by simp
next
  case (snoc v vs)
  have a: "filter (\<lambda>i. keep ((vs @ [v]) ! i)) [0..<length vs] = filter (\<lambda>i. keep (vs ! i)) [0..<length vs]"
    by (rule filter_cong) (simp_all add: nth_append)
  have b: "map (\<lambda>i. (vs @ [v]) ! i) (filter (\<lambda>i. keep (vs ! i)) [0..<length vs])
      = map (\<lambda>i. vs ! i) (filter (\<lambda>i. keep (vs ! i)) [0..<length vs])"
    by (rule map_cong) (simp_all add: nth_append)
  show ?case using snoc by (simp add: a b)
qed

lemma nargsort_desc_eq:
  assumes "argsort (rev (filter (\<lambda>v. \<not> isna v) items)) = Inr perm"
  shows "nargsort_desc argsort items =
     Inr (rev (map (\<lambda>k. rev (filter (\<lambda>i. \<not> isna (items ! i)) [0..<length items]) ! k) perm)
          @ filter (\<lambda>i. isna (items ! i)) [0..<length items])"
  using assms by (simp add: nargsort_desc_def Let_def)

lemma nargsort_desc_error:
  assumes "argsort (rev (filter (\<lambda>v. \<not> isna v) items)) = Inl e"
  shows "nargsort_desc argsort items = Inl e"
  using assms by (simp add: nargsort_desc_def Let_def)

lemma sorted_wrt_rev_flip: "sorted_wrt P (rev xs) = sorted_wrt (\<lambda>a b. P b a) xs"
  by (induction xs) (auto simp: sorted_wrt_append)

lemma nargsort_desc_sorted:
  assumes k: "argsort (rev (filter (\<lambda>v. \<not> isna v) items)) = Inr perm"
    and s: "sorting_result (rev (filter (\<lambda>v. \<not> isna v) items)) perm"
  defines "idx \<equiv> rev (filter (\<lambda>i. \<not> isna (items ! i)) [0..<length items])"
  defines "head \<equiv> rev (map (\<lambda>k. idx ! k) perm)"
  defines "nans \<equiv> filter (\<lambda>i. isna (items ! i)) [0..<length items]"
  shows "nargsort_desc argsort items = Inr (head @ nans)"
    and "distinct (head @ nans)"
    and "set (head @ nans) = {0..<length items}"
    and "sorted_wrt (\<lambda>i j. value_le (items ! j) (items ! i)) head"
    and "\<forall>i \<in> set head. \<not> isna (items ! i)"
    and "\<forall>i \<in> set nans. isna (items ! i)"
proof -
  let ?F = "filter (\<lambda>i. \<not> isna (items ! i)) [0..<length items]"
  let ?vals = "rev (filter (\<lambda>v. \<not> isna v) items)"
  have len: "length idx = length ?vals"
    unfolding idx_def
    using arg_cong[OF map_nth_filter_upt[where keep="\<lambda>v. \<not> isna v" and vs=items], of length]
    by simp
  have mf: "map (\<lambda>i. items ! i) ?F = filter (\<lambda>v. \<not> isna v) items"
    by (rule map_nth_filter_upt[where keep="\<lambda>v. \<not> isna v" and vs=items])
  have vals: "?vals = map (\<lambda>i. items ! i) idx"
    unfolding idx_def rev_map[symmetric] mf ..
  have dperm: "distinct perm" and sperm: "set perm = {0..<length idx}"
    and srt: "sorted_wrt (\<lambda>i j. value_le (?vals ! i) (?vals ! j)) perm"
    using s by (simp_all add: sorting_result_def len)
  have didx: "distinct idx" by (simp add: idx_def)
  have sidx: "set idx = {i. i < length items \<and> \<not> isna (items ! i)}"
    by (auto simp: idx_def)
  show "nargsort_desc argsort items = Inr (head @ nans)"
    unfolding head_def idx_def nans_def
    using k by (rule nargsort_desc_eq[where argsort=argsort and items=items and perm=perm])
  have inj: "inj_on (\<lambda>k. idx ! k) (set perm)"
    unfolding sperm using didx by (auto simp: inj_on_def nth_eq_iff_index_eq)
  have dhead: "distinct head"
    unfolding head_def by (simp add: distinct_map dperm inj)
  have "(\<lambda>k. idx ! k) ` {0..<length idx} = set idx"
    by (auto simp: set_conv_nth)
  then have shead: "set head = set idx" by (simp add: head_def sperm)
  have snans: "set nans = {i. i < length items \<and> isna (items ! i)}"
    by (auto simp: nans_def)
  show "distinct (head @ nans)"
    using dhead by (auto simp: shead sidx snans nans_def)
  show "set (head @ nans) = {0..<length items}"
    by (auto simp: shead sidx snans)
  show "\<forall>i \<in> set head. \<not> isna (items ! i)" by (simp add: shead sidx)
  show "\<forall>i \<in> set nans. isna (items ! i)" by (simp add: snans)
  have "sorted_wrt (\<lambda>i j. value_le (items ! i) (items ! j)) (map (\<lambda>k. idx ! k) perm)"
    unfolding sorted_wrt_map
  proof (rule sorted_wrt_mono_rel[OF _ srt])
    fix a b assume "a \<in> set perm" "b \<in> set perm" "value_le (?vals ! a) (?vals ! b)"
    then show "value_le (items ! (idx ! a)) (items ! (idx ! b))"
      using sperm by (simp add: vals)
  qed
  then show "sorted_wrt (\<lambda>i j. value_le (items ! j) (items ! i)) head"
    unfolding head_def by (simp add: sorted_wrt_rev_flip)
qed


lemma nargsort_desc_stable:
  assumes s: "sorting_result (rev (filter (\<lambda>v. \<not> isna v) items)) perm"
    and st: "stable_result (rev (filter (\<lambda>v. \<not> isna v) items)) perm"
  defines "idx \<equiv> rev (filter (\<lambda>i. \<not> isna (items ! i)) [0..<length items])"
  defines "head \<equiv> rev (map (\<lambda>k. idx ! k) perm)"
  shows "stable_result items head"
  unfolding stable_result_def
proof (intro allI impI)
  fix b a
  assume bl: "b < length head" and al: "a < b"
    and vv: "value_le (items ! (head ! a)) (items ! (head ! b))
      \<and> value_le (items ! (head ! b)) (items ! (head ! a))"
  have h: "a < b \<and> b < length head
    \<and> value_le (items ! (head ! a)) (items ! (head ! b))
    \<and> value_le (items ! (head ! b)) (items ! (head ! a))"
    using bl al vv by simp
  let ?F = "filter (\<lambda>i. \<not> isna (items ! i)) [0..<length items]"
  let ?vals = "rev (filter (\<lambda>v. \<not> isna v) items)"
  define m where "m = length perm"
  have mf: "map (\<lambda>i. items ! i) ?F = filter (\<lambda>v. \<not> isna v) items"
    by (rule map_nth_filter_upt[where keep="\<lambda>v. \<not> isna v" and vs=items])
  have vals: "?vals = map (\<lambda>i. items ! i) idx"
    unfolding idx_def rev_map[symmetric] mf ..
  have len: "length idx = length ?vals" by (simp add: vals)
  have sperm: "set perm = {0..<length idx}"
    using s by (simp add: sorting_result_def len)
  have lh: "length head = m" by (simp add: head_def m_def)
  define a' where "a' = m - 1 - a"
  define b' where "b' = m - 1 - b"
  have ltab: "a < b" "b < m" using h by (simp_all add: lh)
  have ab: "b' < a'" "a' < m" using ltab unfolding a'_def b'_def by linarith+
  have am: "a < m" using ltab by simp
  have ha: "head ! a = idx ! (perm ! a')"
  proof -
    have "head ! a = map (\<lambda>k. idx ! k) perm ! (length (map (\<lambda>k. idx ! k) perm) - Suc a)"
      unfolding head_def using am by (intro rev_nth) (simp add: m_def)
    also have "\<dots> = map (\<lambda>k. idx ! k) perm ! a'" by (simp add: a'_def m_def)
    also have "\<dots> = idx ! (perm ! a')" using ab(2) by (simp add: m_def)
    finally show ?thesis .
  qed
  have hb: "head ! b = idx ! (perm ! b')"
  proof -
    have "head ! b = map (\<lambda>k. idx ! k) perm ! (length (map (\<lambda>k. idx ! k) perm) - Suc b)"
      unfolding head_def using ltab(2) by (intro rev_nth) (simp add: m_def)
    also have "\<dots> = map (\<lambda>k. idx ! k) perm ! b'" by (simp add: b'_def m_def)
    also have "\<dots> = idx ! (perm ! b')" using ab by (simp add: m_def)
    finally show ?thesis .
  qed
  have pa: "perm ! a' < length idx" and pb: "perm ! b' < length idx"
    using sperm ab nth_mem[of a' perm] nth_mem[of b' perm] by (auto simp: m_def)
  have va: "items ! (head ! a) = ?vals ! (perm ! a')" using pa by (simp add: ha vals)
  have vb: "items ! (head ! b) = ?vals ! (perm ! b')" using pb by (simp add: hb vals)
  have lt: "perm ! b' < perm ! a'"
    using st ab h unfolding stable_result_def va vb m_def by blast
  have "sorted_wrt (<) ?F" by (rule sorted_wrt_filter) (simp add: sorted_wrt_upt)
  then have "sorted_wrt (\<lambda>x y. y < x) idx"
    unfolding idx_def by (simp add: sorted_wrt_rev_flip)
  then have "idx ! (perm ! a') < idx ! (perm ! b')"
    using lt pa by (rule sorted_wrt_nth_less)
  then show "head ! a < head ! b" by (simp add: ha hb)
qed

lemma column_values_take_rows:
  "column_values (take_rows df r) c = map (\<lambda>i. column_values df c ! i) r"
  if "c \<in> set (columns df)"
proof -
  have "map_of (map (\<lambda>p. (fst p, map (\<lambda>i. snd p ! i) r)) ps) c
      = map_option (\<lambda>vs. map (\<lambda>i. vs ! i) r) (map_of ps c)" for ps :: "(string \<times> cell list) list"
    by (induction ps) auto
  then show ?thesis using that
    by (auto simp: column_values_def take_rows_def in_columns_iff)
qed

lemma columns_take_rows: "columns (take_rows df r) = columns df"
  by (simp add: columns_def take_rows_def comp_def)

lemma bar_chart_order:
  assumes c: "''Company'' \<in> set (columns df)" and e: "''EV_EBITDA'' \<in> set (columns df)"
    and r: "nargsort_desc argsort (column_values df ''EV_EBITDA'') = Inr r"
  shows "sort_values_desc argsort df ''EV_EBITDA'' = Inr (take_rows df r)"
    and "build_bar_chart_ev_ebitda (take_rows df r) p =
           Inr (BarChart p (map (\<lambda>i. column_values df ''Company'' ! i) r)
                           (map (\<lambda>i. column_values df ''EV_EBITDA'' ! i) r))"
proof -
  show "sort_values_desc argsort df ''EV_EBITDA'' = Inr (take_rows df r)"
    by (simp add: sort_values_desc_def getitem_present[OF e] r)
  have "''Company'' \<in> set (columns (take_rows df r))" "''EV_EBITDA'' \<in> set (columns (take_rows df r))"
    using c e by (simp_all add: columns_take_rows)
  then show "build_bar_chart_ev_ebitda (take_rows df r) p =
           Inr (BarChart p (map (\<lambda>i. column_values df ''Company'' ! i) r)
                           (map (\<lambda>i. column_values df ''EV_EBITDA'' ! i) r))"
    by (simp add: build_bar_chart_ev_ebitda_def getitem_present
        column_values_take_rows[OF c] column_values_take_rows[OF e])
qed

lemma bar_chart_order_example:
  "sorting_result (rev (filter (\<lambda>v. \<not> isna v) (column_values ex_ties_df ''EV_EBITDA''))) [0, 2, 1]
   \<and> insertion_argsort (rev (filter (\<lambda>v. \<not> isna v) (column_values ex_ties_df ''EV_EBITDA'')))
        = Inr [0, 2, 1]
   \<and> nargsort_desc insertion_argsort (column_values ex_ties_df ''EV_EBITDA'') = Inr [2, 0, 3, 1]
   \<and> build_bar_chart_ev_ebitda (take_rows ex_ties_df [2, 0, 3, 1]) ''c.png''
        = Inr (BarChart ''c.png'' [StrV ''C'', StrV ''A'', StrV ''D'', StrV ''B'']
                 [FloatV (Fin 20), FloatV (Fin 10), IntV 10, FloatV NaN])"
  by code_simp


end
